theory Spec2Isabelle
  imports Complex_Main
begin

section \<open>Numbers, strings, errors\<close>

text \<open>
  The TypeScript sources compute with the JavaScript type \<open>number\<close>, the IEEE-754 binary64
  format. A number is modelled by its real value, and \<open>roundDouble\<close> is the rounding every
  arithmetic operation of the format ends with: to the nearest value with 53 significant
  bits, a tie going to the even significand, with gradual underflow below \<open>2 powi (- 1022)\<close>.
  Overflow to \<open>Infinity\<close>, \<open>NaN\<close> and the sign of zero are outside the model.

  The additions and subtractions that produce the total of a pool and the remaining balance
  of a ledger record are rounded, as the \<open>+\<close> and \<open>-\<close> of the code are, and \<open>toFixed\<close> reads a
  rounded argument. The products and quotients of the penalty, tonnes and route comparison
  formulas and the surplus and deficit reports are written with the exact operations of
  the reals. Years are integers (the HTTP layer reads them with \<open>parseInt\<close>), timestamps are
  natural numbers.
\<close>

type_synonym number = real

definition roundTiesToEven :: "real \<Rightarrow> int" where
  "roundTiesToEven x =
     (let f = \<lfloor>x\<rfloor>; d = x - of_int f in
      if d < 1 / 2 then f else if d > 1 / 2 then f + 1 else if even f then f else f + 1)"

text \<open>The exponent \<open>e\<close> with \<open>2 powi e \<le> |x| < 2 powi (e + 1)\<close>, for \<open>x\<close> other than 0.\<close>

definition binade :: "real \<Rightarrow> int" where
  "binade x = \<lfloor>log 2 \<bar>x\<bar>\<rfloor>"

definition roundDouble :: "real \<Rightarrow> number" where
  "roundDouble x =
     (if x = 0 then 0
      else (let q = max (binade x) (- 1022) - 52
            in of_int (roundTiesToEven (x / 2 powi q)) * 2 powi q))"

text \<open>
  \<open>String.prototype.trim\<close>. A character of the model is a code unit below 256; of these,
  \<open>trim\<close> strips tab, line feed, vertical tab, form feed, carriage return, space and the
  no-break space. The white space beyond 255 (U+FEFF, U+2028, U+2029 and the other space
  separators) has no counterpart in the model.
\<close>

definition isWhiteSpace :: "char \<Rightarrow> bool" where
  "isWhiteSpace c =
     (c \<in> set [CHR 0x09, CHR 0x0A, CHR 0x0B, CHR 0x0C, CHR 0x0D, CHR 0x20, CHR 0xA0])"

definition trim :: "string \<Rightarrow> string" where
  "trim s = rev (dropWhile isWhiteSpace (rev (dropWhile isWhiteSpace s)))"

text \<open>The recurring test \<open>!s || s.trim() === ''\<close>.\<close>

definition isBlank :: "string \<Rightarrow> bool" where
  "isBlank s = (s = [] \<or> trim s = [])"

text \<open>
  Every \<open>throw new Error(...)\<close> of the modelled code is one constructor; a message that
  interpolates values carries them.
\<close>

datatype error =
    PoolNameRequired
  | YearOutOfRange
  | PoolTooSmall
  | DuplicateMembers
  | AlreadyInPool string
  | NotInPool string
  | ShipIdRequired
  | AmountNotPositive
  | NegativeRemainingBalance
  | SourceYearRequired
  | CannotBorrow number number
  | InsufficientBalance number number
  | SourceYearOutOfRange
  | SourceYearNotBefore
  | NoBaselineRoute

section \<open>Pool entity\<close>

text \<open>Class \<open>Pool\<close>, core/domain/entities/Pool.entity.ts, lines 1 to 323.\<close>

record PoolMember =
  shipId :: string
  complianceBalance :: number
  contribution :: number
  contributionTonnes :: number

text \<open>
  \<open>IPoolProps\<close> and the private fields of class \<open>Pool\<close> have the same shape, so one record
  serves both. Optional fields are options; \<open>createdAt\<close> is filled by the constructor.
\<close>

record Pool =
  pool_id :: "string option"
  poolName :: string
  year :: int
  members :: "PoolMember list"
  totalCB :: number
  isCompliant :: bool
  createdBy :: "string option"
  createdAt :: "nat option"
  description :: "string option"

text \<open>\<open>Pool.validate\<close>: the four checks in source order; \<open>new Set(shipIds).size\<close> is the
  number of distinct identifiers.\<close>

definition validate_Pool :: "Pool \<Rightarrow> error + unit" where
  "validate_Pool props =
     (if isBlank (poolName props) then Inl PoolNameRequired
      else if year props < 2025 \<or> year props > 2030 then Inl YearOutOfRange
      else if length (members props) < 2 then Inl PoolTooSmall
      else (let shipIds = map shipId (members props) in
            if length shipIds \<noteq> length (remdups shipIds) then Inl DuplicateMembers
            else Inr ()))"

text \<open>The constructor; \<open>now\<close> is the value of \<open>new Date()\<close>.\<close>

definition new_Pool :: "nat \<Rightarrow> Pool \<Rightarrow> error + Pool" where
  "new_Pool now props =
     (case validate_Pool props of
        Inl e \<Rightarrow> Inl e
      | Inr _ \<Rightarrow> Inr (props\<lparr>createdAt := (case createdAt props of None \<Rightarrow> Some now | Some d \<Rightarrow> Some d)\<rparr>))"

text \<open>\<open>members.reduce((sum, member) => sum + member.complianceBalance, 0)\<close>: the balances
  are added from the left, each addition rounding its result.\<close>

definition sumCB :: "PoolMember list \<Rightarrow> number" where
  "sumCB ms = foldl (\<lambda>sum member. roundDouble (sum + complianceBalance member)) 0 ms"

definition createPool ::
  "nat \<Rightarrow> string \<Rightarrow> int \<Rightarrow> PoolMember list \<Rightarrow> string option \<Rightarrow> string option \<Rightarrow> error + Pool" where
  "createPool now name y ms creator descr =
     (let total = sumCB ms;
          compliant = (total \<ge> 0)
      in new_Pool now \<lparr>pool_id = None, poolName = name, year = y, members = ms, totalCB = total,
                       isCompliant = compliant, createdBy = creator, createdAt = None,
                       description = descr\<rparr>)"

definition recalculateTotalCB :: "Pool \<Rightarrow> Pool" where
  "recalculateTotalCB p =
     (let p1 = p\<lparr>totalCB := sumCB (members p)\<rparr>
      in p1\<lparr>isCompliant := (totalCB p1 \<ge> 0)\<rparr>)"

text \<open>
  The two mutators return the outcome together with the object's state after the call, so
  that what an exception leaves behind is part of the model.
\<close>

definition addMember :: "PoolMember \<Rightarrow> Pool \<Rightarrow> (error + unit) \<times> Pool" where
  "addMember member p =
     (let exists = list_ex (\<lambda>m. shipId m = shipId member) (members p) in
      if exists then (Inl (AlreadyInPool (shipId member)), p)
      else (let p1 = p\<lparr>members := members p @ [member]\<rparr>
            in (Inr (), recalculateTotalCB p1)))"

text \<open>\<open>Array.prototype.findIndex\<close>: the first index that satisfies the test, or -1.\<close>

fun findIndex :: "('a \<Rightarrow> bool) \<Rightarrow> 'a list \<Rightarrow> int" where
  "findIndex P [] = -1"
| "findIndex P (x # xs) =
     (if P x then 0 else (let i = findIndex P xs in if i = -1 then -1 else i + 1))"

text \<open>\<open>xs.splice(i, 1)\<close> for an index in range.\<close>

definition splice1 :: "nat \<Rightarrow> 'a list \<Rightarrow> 'a list" where
  "splice1 i xs = take i xs @ drop (Suc i) xs"

definition removeMember :: "string \<Rightarrow> Pool \<Rightarrow> (error + unit) \<times> Pool" where
  "removeMember sid p =
     (let index = findIndex (\<lambda>m. shipId m = sid) (members p) in
      if index = -1 then (Inl (NotInPool sid), p)
      else (let p1 = p\<lparr>members := splice1 (nat index) (members p)\<rparr> in
            if length (members p1) < 2 then (Inl PoolTooSmall, p1)
            else (Inr (), recalculateTotalCB p1)))"





definition getTotalCBInTonnes :: "Pool \<Rightarrow> number" where
  "getTotalCBInTonnes p = totalCB p / 1000000"

definition calculatePenalty :: "Pool \<Rightarrow> number" where
  "calculatePenalty p =
     (if isCompliant p then 0
      else (let deficitTonnes = \<bar>totalCB p\<bar> / 1000000 in deficitTonnes * 2400))"

text \<open>
  \<open>getPenaltyPerMember\<close> divides by \<open>members.length\<close>. The class keeps at least one member
  in every reachable state, so the divisor is positive; on an empty list JavaScript would
  give \<open>Infinity\<close> where HOL gives 0, and the theorems about this function exclude it.
\<close>

definition getPenaltyPerMember :: "Pool \<Rightarrow> number" where
  "getPenaltyPerMember p =
     (let totalPenalty = calculatePenalty p in
      if totalPenalty = 0 then 0
      else totalPenalty / real (length (members p)))"


section \<open>BankingRecord entity\<close>

text \<open>Class \<open>BankingRecord\<close>, in the same source file as \<open>Pool\<close>, lines 323 to 561.\<close>

datatype BankingTransactionType = BANK | BORROW

text \<open>
  \<open>Number.prototype.toFixed(2)\<close> read back as a number. The receiver is the double the
  preceding operation left, so the argument is rounded first; of that value the method
  takes the nearest multiple of 1/100, the larger in magnitude on a tie.
\<close>

definition toFixed2 :: "number \<Rightarrow> number" where
  "toFixed2 x =
     (let d = roundDouble x in
      if d < 0 then - (of_int (round (- d * 100)) / 100)
      else of_int (round (d * 100)) / 100)"

text \<open>
  A description is the caller's text or one of the two generated sentences, which carry the
  amount in tonnes to two decimals and the year.
\<close>

datatype description_text = Text string | Banked number int | Borrowed number int

record BankingRecord =
  br_id :: "string option"
  br_shipId :: string
  transactionType :: BankingTransactionType
  br_year :: int
  amount :: number
  sourceYear :: "int option"
  remainingBalance :: number
  transactionDate :: "nat option"
  br_description :: "description_text option"

text \<open>\<open>!props.sourceYear\<close> holds for a missing source year and for 0.\<close>

definition noSourceYear :: "int option \<Rightarrow> bool" where
  "noSourceYear sy = (case sy of None \<Rightarrow> True | Some y \<Rightarrow> y = 0)"

definition validate_BankingRecord :: "BankingRecord \<Rightarrow> error + unit" where
  "validate_BankingRecord props =
     (if isBlank (br_shipId props) then Inl ShipIdRequired
      else if br_year props < 2025 \<or> br_year props > 2030 then Inl YearOutOfRange
      else if amount props \<le> 0 then Inl AmountNotPositive
      else if remainingBalance props < 0 then Inl NegativeRemainingBalance
      else if transactionType props = BORROW \<and> noSourceYear (sourceYear props)
        then Inl SourceYearRequired
      else Inr ())"

definition new_BankingRecord :: "nat \<Rightarrow> BankingRecord \<Rightarrow> error + BankingRecord" where
  "new_BankingRecord now props =
     (case validate_BankingRecord props of
        Inl e \<Rightarrow> Inl e
      | Inr _ \<Rightarrow> Inr (props\<lparr>transactionDate :=
                          (case transactionDate props of None \<Rightarrow> Some now | Some d \<Rightarrow> Some d)\<rparr>))"

text \<open>\<open>description || default\<close>: a missing or empty description gives the default.\<close>

definition orDefault :: "string option \<Rightarrow> description_text \<Rightarrow> description_text" where
  "orDefault d dflt = (case d of None \<Rightarrow> dflt | Some s \<Rightarrow> if s = [] then dflt else Text s)"

definition createBankTransaction ::
  "nat \<Rightarrow> string \<Rightarrow> int \<Rightarrow> number \<Rightarrow> number \<Rightarrow> string option \<Rightarrow> error + BankingRecord" where
  "createBankTransaction now sid y amt currentBalance descr =
     new_BankingRecord now
       \<lparr>br_id = None, br_shipId = sid, transactionType = BANK, br_year = y, amount = amt,
        sourceYear = None, remainingBalance = roundDouble (currentBalance + amt),
        transactionDate = None,
        br_description = Some (orDefault descr (Banked (toFixed2 (amt / 1000000)) y))\<rparr>"

definition createBorrowTransaction ::
  "nat \<Rightarrow> string \<Rightarrow> int \<Rightarrow> number \<Rightarrow> int \<Rightarrow> number \<Rightarrow> string option \<Rightarrow> error + BankingRecord" where
  "createBorrowTransaction now sid y amt srcYear currentBalance descr =
     (if amt > currentBalance then Inl (CannotBorrow amt currentBalance)
      else new_BankingRecord now
             \<lparr>br_id = None, br_shipId = sid, transactionType = BORROW, br_year = y, amount = amt,
              sourceYear = Some srcYear,
              remainingBalance = roundDouble (currentBalance - amt),
              transactionDate = None,
              br_description = Some (orDefault descr (Borrowed (toFixed2 (amt / 1000000)) y))\<rparr>)"

section \<open>Ledger store\<close>

text \<open>Interface \<open>IBankingRepository\<close> and its implementation in
  adapters/outbound/postgres/repositories/BankingRepository.ts.\<close>

text \<open>
  The store is the list of rows in insertion order. \<open>save\<close> writes the row with the
  identifier the database generates (\<open>newId\<close>) and maps the saved row back to an entity with
  the entity's constructor. \<open>getCurrentBalance\<close> reads the \<open>remaining_balance\<close> of the
  ship's row with the greatest \<open>transaction_date\<close>, and 0 when the ship has no row. SQL
  leaves the order of equal dates open; the model takes the earliest inserted of them. The
  rounding of the \<open>decimal(20,2)\<close> columns happens inside the database and is not modelled.
\<close>

type_synonym ledger = "BankingRecord list"

definition save :: "string \<Rightarrow> BankingRecord \<Rightarrow> ledger \<Rightarrow> (error + BankingRecord) \<times> ledger" where
  "save newId bankingRecord rows =
     (let savedModel = bankingRecord\<lparr>br_id := Some newId\<rparr>
      in (new_BankingRecord 0 savedModel, rows @ [savedModel]))"

text \<open>Every entity carries a date (the constructor sets it), so the \<open>None\<close> case is idle.\<close>

definition dateOf :: "BankingRecord \<Rightarrow> nat" where
  "dateOf r = (case transactionDate r of None \<Rightarrow> 0 | Some d \<Rightarrow> d)"

fun latest :: "BankingRecord list \<Rightarrow> BankingRecord option" where
  "latest [] = None"
| "latest (r # rs) =
     (case latest rs of
        None \<Rightarrow> Some r
      | Some r' \<Rightarrow> if dateOf r' > dateOf r then Some r' else Some r)"

definition getCurrentBalance :: "string \<Rightarrow> ledger \<Rightarrow> number" where
  "getCurrentBalance sid rows =
     (case latest (filter (\<lambda>r. br_shipId r = sid) rows) of
        None \<Rightarrow> 0
      | Some latestRecord \<Rightarrow> remainingBalance latestRecord)"

section \<open>Banking use cases\<close>

text \<open>\<open>ApplyBankingUseCase\<close> (use-cases/banking/ApplyBanking.usecase.ts, lines 1 to 157) and
  \<open>BankSurplusUseCase\<close> (in use-cases/compliance/CalculateCB.usecase.ts, lines 194 to 326).\<close>

record ApplyBankingInput =
  ab_shipId :: string
  ab_year :: int
  ab_amount :: number
  ab_sourceYear :: int
  ab_description :: "string option"

record BankingOutput =
  transaction :: BankingRecord
  previousBalance :: number
  newBalance :: number
  amountTonnes :: number
  previousBalanceTonnes :: number
  newBalanceTonnes :: number

definition validateInput_ApplyBanking :: "ApplyBankingInput \<Rightarrow> error + unit" where
  "validateInput_ApplyBanking input =
     (if isBlank (ab_shipId input) then Inl ShipIdRequired
      else if ab_year input = 0 \<or> ab_year input < 2025 \<or> ab_year input > 2030
        then Inl YearOutOfRange
      else if ab_amount input = 0 \<or> ab_amount input \<le> 0 then Inl AmountNotPositive
      else if ab_sourceYear input = 0 \<or> ab_sourceYear input < 2025 \<or> ab_sourceYear input > 2030
        then Inl SourceYearOutOfRange
      else if ab_sourceYear input \<ge> ab_year input then Inl SourceYearNotBefore
      else Inr ())"

text \<open>
  \<open>ApplyBankingUseCase.execute\<close>. \<open>now\<close> is the clock read by the entity's constructor,
  \<open>newId\<close> the identifier the store assigns. The result pairs the outcome with the ledger
  after the call.
\<close>

definition execute_ApplyBanking ::
  "nat \<Rightarrow> string \<Rightarrow> ApplyBankingInput \<Rightarrow> ledger \<Rightarrow> (error + BankingOutput) \<times> ledger" where
  "execute_ApplyBanking now newId input rows =
     (case validateInput_ApplyBanking input of
        Inl e \<Rightarrow> (Inl e, rows)
      | Inr _ \<Rightarrow>
         (let currentBalance = getCurrentBalance (ab_shipId input) rows in
          if currentBalance < ab_amount input
            then (Inl (InsufficientBalance (toFixed2 (currentBalance / 1000000))
                                           (toFixed2 (ab_amount input / 1000000))), rows)
          else
            (case createBorrowTransaction now (ab_shipId input) (ab_year input) (ab_amount input)
                    (ab_sourceYear input) currentBalance (ab_description input) of
               Inl e \<Rightarrow> (Inl e, rows)
             | Inr bankingRecord \<Rightarrow>
                (case save newId bankingRecord rows of
                   (Inl e, rows') \<Rightarrow> (Inl e, rows')
                 | (Inr savedRecord, rows') \<Rightarrow>
                    (let nb = remainingBalance savedRecord in
                     (Inr \<lparr>transaction = savedRecord, previousBalance = currentBalance,
                           newBalance = nb, amountTonnes = ab_amount input / 1000000,
                           previousBalanceTonnes = currentBalance / 1000000,
                           newBalanceTonnes = nb / 1000000\<rparr>, rows'))))))"

record BankSurplusInput =
  bs_shipId :: string
  bs_year :: int
  bs_amount :: number
  bs_description :: "string option"

definition validateInput_BankSurplus :: "BankSurplusInput \<Rightarrow> error + unit" where
  "validateInput_BankSurplus input =
     (if isBlank (bs_shipId input) then Inl ShipIdRequired
      else if bs_year input = 0 \<or> bs_year input < 2025 \<or> bs_year input > 2030
        then Inl YearOutOfRange
      else if bs_amount input = 0 \<or> bs_amount input \<le> 0 then Inl AmountNotPositive
      else Inr ())"

definition execute_BankSurplus ::
  "nat \<Rightarrow> string \<Rightarrow> BankSurplusInput \<Rightarrow> ledger \<Rightarrow> (error + BankingOutput) \<times> ledger" where
  "execute_BankSurplus now newId input rows =
     (case validateInput_BankSurplus input of
        Inl e \<Rightarrow> (Inl e, rows)
      | Inr _ \<Rightarrow>
         (let currentBalance = getCurrentBalance (bs_shipId input) rows in
          case createBankTransaction now (bs_shipId input) (bs_year input) (bs_amount input)
                 currentBalance (bs_description input) of
            Inl e \<Rightarrow> (Inl e, rows)
          | Inr bankingRecord \<Rightarrow>
             (case save newId bankingRecord rows of
                (Inl e, rows') \<Rightarrow> (Inl e, rows')
              | (Inr savedRecord, rows') \<Rightarrow>
                 (let nb = remainingBalance savedRecord in
                  (Inr \<lparr>transaction = savedRecord, previousBalance = currentBalance,
                        newBalance = nb, amountTonnes = bs_amount input / 1000000,
                        previousBalanceTonnes = currentBalance / 1000000,
                        newBalanceTonnes = nb / 1000000\<rparr>, rows')))))"

section \<open>Input validation of the other use cases\<close>

text \<open>\<open>CalculateCBUseCase.validateInput\<close> (use-cases/compliance/CalculateCB.usecase.ts, lines 185
  to 193).\<close>

record CalculateCBInput =
  cc_shipId :: string
  cc_year :: int
  cc_routeId :: "string option"

definition validateInput_CalculateCB :: "CalculateCBInput \<Rightarrow> error + unit" where
  "validateInput_CalculateCB input =
     (if isBlank (cc_shipId input) then Inl ShipIdRequired
      else if cc_year input = 0 \<or> cc_year input < 2025 \<or> cc_year input > 2030
        then Inl YearOutOfRange
      else Inr ())"

text \<open>\<open>CreatePoolUseCase.validateInput\<close> (in use-cases/banking/ApplyBanking.usecase.ts, lines
  373 to 393).\<close>

record ShipInput =
  si_shipId :: string
  si_routeId :: "string option"

record CreatePoolInput =
  cp_poolName :: string
  cp_year :: int
  ships :: "ShipInput list"
  cp_createdBy :: "string option"
  cp_description :: "string option"

definition validateInput_CreatePool :: "CreatePoolInput \<Rightarrow> error + unit" where
  "validateInput_CreatePool input =
     (if isBlank (cp_poolName input) then Inl PoolNameRequired
      else if cp_year input = 0 \<or> cp_year input < 2025 \<or> cp_year input > 2030
        then Inl YearOutOfRange
      else if length (ships input) < 2 then Inl PoolTooSmall
      else (let shipIds = map si_shipId (ships input) in
            if length shipIds \<noteq> length (remdups shipIds) then Inl DuplicateMembers
            else Inr ()))"

section \<open>Route comparison\<close>

text \<open>\<open>CompareRoutesUseCase\<close>, in use-cases/pooling/GetPoolDetails.usecase.ts, lines 127 to 261.\<close>

text \<open>The object literal \<open>FUELEU_TARGETS\<close>, in gCO2e/MJ.\<close>

definition FUELEU_TARGETS :: "(int \<times> number) list" where
  "FUELEU_TARGETS =
     [(2025, 893368 / 10000), (2026, 877528 / 10000), (2027, 861688 / 10000),
      (2028, 845848 / 10000), (2029, 830008 / 10000), (2030, 814168 / 10000)]"

text \<open>
  \<open>FUELEU_TARGETS[year] || FUELEU_TARGETS[2025]\<close>. No entry is 0, so the right operand is
  taken exactly for a year that is not a key; the key 2025 exists, so the innermost case is
  idle.
\<close>

definition targetOrDefault :: "int \<Rightarrow> number" where
  "targetOrDefault y =
     (case map_of FUELEU_TARGETS y of
        Some t \<Rightarrow> t
      | None \<Rightarrow> (case map_of FUELEU_TARGETS 2025 of Some t \<Rightarrow> t | None \<Rightarrow> 0))"

text \<open>
  \<open>Route.entity.ts\<close> is not among the sources; the use case reads a route only through its
  getters, which are the fields below. The store is the list \<open>findAll\<close> returns, and
  \<open>findBaseline\<close> finds the row flagged as baseline.
\<close>

record Route =
  routeId :: string
  vesselType :: string
  fuelType :: string
  route_year :: int
  ghgIntensity :: number
  fuelConsumption :: number
  isBaseline :: bool

record RouteComparison =
  rc_routeId :: string
  rc_vesselType :: string
  rc_fuelType :: string
  rc_year :: int
  rc_ghgIntensity :: number
  percentDiffFromBaseline :: number
  compliant :: bool
  surplus :: number
  deficit :: number

record ComparisonResponse =
  baseline :: Route
  target :: number
  cr_year :: int
  comparisons :: "RouteComparison list"

text \<open>The four locals of the comparison, lines 228 to 231.\<close>

definition energyInScope :: "Route \<Rightarrow> number" where
  "energyInScope route = fuelConsumption route * 41000"

definition actualEmissions :: "Route \<Rightarrow> number" where
  "actualEmissions route = ghgIntensity route * energyInScope route"

definition targetEmissions :: "number \<Rightarrow> Route \<Rightarrow> number" where
  "targetEmissions tgt route = tgt * energyInScope route"

definition difference :: "number \<Rightarrow> Route \<Rightarrow> number" where
  "difference tgt route = targetEmissions tgt route - actualEmissions route"

text \<open>
  The body of the \<open>map\<close> callback. The percentage divides by the baseline intensity; for a
  baseline intensity of 0 JavaScript yields \<open>Infinity\<close> or \<open>NaN\<close> where HOL yields 0, and no
  theorem below reads that field.
\<close>

definition compareRoute :: "number \<Rightarrow> Route \<Rightarrow> Route \<Rightarrow> RouteComparison" where
  "compareRoute tgt baselineRoute route =
     (let percentDiff = ((ghgIntensity route - ghgIntensity baselineRoute)
                          / ghgIntensity baselineRoute) * 100;
          isOk = (ghgIntensity route \<le> tgt);
          diff = difference tgt route
      in \<lparr>rc_routeId = routeId route, rc_vesselType = vesselType route,
          rc_fuelType = fuelType route, rc_year = route_year route,
          rc_ghgIntensity = ghgIntensity route,
          percentDiffFromBaseline = toFixed2 percentDiff,
          compliant = isOk,
          surplus = (if isOk then toFixed2 (diff / 1000000) else 0),
          deficit = (if \<not> isOk then toFixed2 (\<bar>diff\<bar> / 1000000) else 0)\<rparr>)"

definition execute_CompareRoutes :: "int \<Rightarrow> Route list \<Rightarrow> error + ComparisonResponse" where
  "execute_CompareRoutes y allRoutes =
     (case find isBaseline allRoutes of
        None \<Rightarrow> Inl NoBaselineRoute
      | Some baselineRoute \<Rightarrow>
         (let tgt = targetOrDefault y in
          Inr \<lparr>baseline = baselineRoute, target = tgt, cr_year = y,
               comparisons =
                 map (compareRoute tgt baselineRoute)
                     (filter (\<lambda>route. routeId route \<noteq> routeId baselineRoute) allRoutes)\<rparr>))"

section \<open>Compliance calculator\<close>

record ComplianceBalance =
  cb_shipId :: string
  cb_year :: int
  cb_energyInScope :: number
  ghgTarget :: number
  ghgActual :: number
  balanceGrams :: number
  balanceTonnes :: number
  cb_isCompliant :: bool
  surplusAmount :: number
  deficitAmount :: number
  penalty :: number

text \<open>
  Modelled from the spec: \<open>ComplianceBalance.createFromRoute\<close> and the getters of class
  \<open>ComplianceBalance\<close> (ComplianceBalance.entity.ts), which the use cases call and which is
  not among the sources. The definition follows section 4.1 of the specification: energy in
  scope is fuel times 41000, the target is the table entry of the year, a blank ship
  identifier and a year outside the table are errors, the balance is
  (target - actual) times energy times multiplier, and surplus, deficit and penalty derive
  from it. The table is the constant \<open>FUELEU_TARGETS\<close> of the route comparison.
\<close>

definition createFromRoute ::
  "string \<Rightarrow> int \<Rightarrow> number \<Rightarrow> number \<Rightarrow> number \<Rightarrow> error + ComplianceBalance" where
  "createFromRoute sid y fuelConsumedTonnes actual multiplier =
     (if isBlank sid then Inl ShipIdRequired
      else case map_of FUELEU_TARGETS y of
        None \<Rightarrow> Inl YearOutOfRange
      | Some tgt \<Rightarrow>
         (let energy = fuelConsumedTonnes * 41000;
              bal = (tgt - actual) * energy * multiplier;
              dfc = max (- bal) 0
          in Inr \<lparr>cb_shipId = sid, cb_year = y, cb_energyInScope = energy, ghgTarget = tgt,
                  ghgActual = actual, balanceGrams = bal, balanceTonnes = bal / 1000000,
                  cb_isCompliant = (bal \<ge> 0), surplusAmount = max bal 0,
                  deficitAmount = dfc, penalty = (dfc / 1000000) * 2400\<rparr>))"

section \<open>Sums without rounding\<close>

text \<open>
  \<open>noRounding a ms\<close>: starting from the running total \<open>a\<close>, no addition of the fold over
  \<open>ms\<close> rounds, that is, every partial sum is a double. Whole numbers of grams whose partial
  sums stay within \<open>2 ^ 53\<close> in magnitude are the typical case.
\<close>

fun noRounding :: "number \<Rightarrow> PoolMember list \<Rightarrow> bool" where
  "noRounding a [] = True"
| "noRounding a (m # ms) =
     (roundDouble (a + complianceBalance m) = a + complianceBalance m \<and>
      noRounding (a + complianceBalance m) ms)"

section \<open>Example data\<close>

text \<open>Concrete ships, pools, routes and requests at which the theorems are evaluated.\<close>

definition shipA :: PoolMember where
  "shipA = \<lparr>shipId = ''SHIP-A'', complianceBalance = 10000000, contribution = 10000000,
            contributionTonnes = 10\<rparr>"

definition shipB :: PoolMember where
  "shipB = \<lparr>shipId = ''SHIP-B'', complianceBalance = - 4000000, contribution = - 4000000,
            contributionTonnes = - 4\<rparr>"

definition shipC :: PoolMember where
  "shipC = \<lparr>shipId = ''SHIP-C'', complianceBalance = 0, contribution = 0,
            contributionTonnes = 0\<rparr>"

definition poolAB :: Pool where
  "poolAB = \<lparr>pool_id = None, poolName = ''Pool 1'', year = 2025, members = [shipA, shipB],
             totalCB = 6000000, isCompliant = True, createdBy = None, createdAt = Some 7,
             description = None\<rparr>"



definition shipD :: PoolMember where
  "shipD = \<lparr>shipId = ''SHIP-D'', complianceBalance = - 10000000, contribution = - 10000000,
            contributionTonnes = - 10\<rparr>"

definition shipE :: PoolMember where
  "shipE = \<lparr>shipId = ''SHIP-E'', complianceBalance = - 5000000, contribution = - 5000000,
            contributionTonnes = - 5\<rparr>"

definition poolDE :: Pool where
  "poolDE = \<lparr>pool_id = None, poolName = ''Pool 2'', year = 2025, members = [shipD, shipE],
             totalCB = - 15000000, isCompliant = False, createdBy = None, createdAt = Some 7,
             description = None\<rparr>"

text \<open>The entity that \<open>createBorrowTransaction\<close> hands back when it succeeds.\<close>

definition borrowRecord ::
  "nat \<Rightarrow> string \<Rightarrow> int \<Rightarrow> number \<Rightarrow> int \<Rightarrow> number \<Rightarrow> string option \<Rightarrow> BankingRecord" where
  "borrowRecord now sid y amt srcYear currentBalance descr =
     \<lparr>br_id = None, br_shipId = sid, transactionType = BORROW, br_year = y, amount = amt,
      sourceYear = Some srcYear, remainingBalance = roundDouble (currentBalance - amt),
      transactionDate = Some now,
      br_description = Some (orDefault descr (Borrowed (toFixed2 (amt / 1000000)) y))\<rparr>"

definition borrowRequest :: ApplyBankingInput where
  "borrowRequest = \<lparr>ab_shipId = ''SHIP-A'', ab_year = 2026, ab_amount = 50000000,
                     ab_sourceYear = 2025, ab_description = None\<rparr>"

definition bankedRow :: BankingRecord where
  "bankedRow = \<lparr>br_id = Some ''id-1'', br_shipId = ''SHIP-A'', transactionType = BANK,
                 br_year = 2025, amount = 100000000, sourceYear = None,
                 remainingBalance = 100000000, transactionDate = Some 1,
                 br_description = Some (Banked 100 2025)\<rparr>"

definition borrowOutcome :: BankingOutput where
  "borrowOutcome =
     \<lparr>transaction = (borrowRecord 9 ''SHIP-A'' 2026 50000000 2025 100000000 None)
                      \<lparr>br_id := Some ''id-2''\<rparr>,
      previousBalance = 100000000, newBalance = 50000000, amountTonnes = 50,
      previousBalanceTonnes = 100, newBalanceTonnes = 50\<rparr>"

definition routeR001 :: Route where
  "routeR001 = \<lparr>routeId = ''R001'', vesselType = ''Container'', fuelType = ''HFO'',
                 route_year = 2024, ghgIntensity = 91, fuelConsumption = 5000,
                 isBaseline = True\<rparr>"

definition routeR002 :: Route where
  "routeR002 = \<lparr>routeId = ''R002'', vesselType = ''BulkCarrier'', fuelType = ''LNG'',
                 route_year = 2024, ghgIntensity = 88, fuelConsumption = 4800,
                 isBaseline = False\<rparr>"

text \<open>The target table as the specification lists it, to compare with \<open>FUELEU_TARGETS\<close>.\<close>

definition tableTarget :: "int \<Rightarrow> number" where
  "tableTarget y =
     (if y = 2025 then 893368 / 10000 else if y = 2026 then 877528 / 10000
      else if y = 2027 then 861688 / 10000 else if y = 2028 then 845848 / 10000
      else if y = 2029 then 830008 / 10000 else 814168 / 10000)"

text \<open>The compliance balance of the scenario: 5000 t of fuel at 91.0 gCO2e/MJ in 2025.\<close>

definition scenarioCB :: ComplianceBalance where
  "scenarioCB = \<lparr>cb_shipId = ''SHIP-A'', cb_year = 2025, cb_energyInScope = 205000000,
                  ghgTarget = 893368 / 10000, ghgActual = 91, balanceGrams = - 340956000,
                  balanceTonnes = - 340956 / 1000, cb_isCompliant = False, surplusAmount = 0,
                  deficitAmount = 340956000, penalty = 8182944 / 10\<rparr>"

text \<open>Three ships whose balances are doubles and whose sum rounds: -1, -2^53 and 2^53.\<close>

definition shipX :: PoolMember where
  "shipX = \<lparr>shipId = ''SHIP-X'', complianceBalance = - 1, contribution = - 1,
            contributionTonnes = 0\<rparr>"

definition shipY :: PoolMember where
  "shipY = \<lparr>shipId = ''SHIP-Y'', complianceBalance = - 9007199254740992,
            contribution = - 9007199254740992, contributionTonnes = - 9007199254.74\<rparr>"

definition shipZ :: PoolMember where
  "shipZ = \<lparr>shipId = ''SHIP-Z'', complianceBalance = 9007199254740992,
            contribution = 9007199254740992, contributionTonnes = 9007199254.74\<rparr>"

definition poolXYZ :: Pool where
  "poolXYZ = \<lparr>pool_id = None, poolName = ''Pool 3'', year = 2025,
              members = [shipX, shipY, shipZ], totalCB = 0, isCompliant = True,
              createdBy = None, createdAt = Some 7, description = None\<rparr>"


section \<open>Auxiliary facts\<close>

lemma roundTiesToEven_of_int [simp]: "roundTiesToEven (of_int n) = n"
  by (simp add: roundTiesToEven_def)

lemma roundTiesToEven_nonneg: "0 \<le> x \<Longrightarrow> 0 \<le> roundTiesToEven x"
  by (auto simp: roundTiesToEven_def Let_def)

lemma binade_eqI:
  assumes "2 powi e \<le> \<bar>x\<bar>" and "\<bar>x\<bar> < 2 powi (e + 1)"
  shows "binade x = e"
proof -
  have pos: "0 < \<bar>x\<bar>" using assms(1) by (smt (verit) zero_less_power_int)
  have "(2::real) powr real_of_int e = 2 powi e"
    by (simp add: powr_real_of_int')
  moreover have "(2::real) powr (real_of_int e + 1) = 2 powi (e + 1)"
    using powr_real_of_int' [of 2 "e + 1"] by simp
  ultimately
  have "2 powr real_of_int e \<le> \<bar>x\<bar> \<and> \<bar>x\<bar> < 2 powr (real_of_int e + 1)"
    using assms by simp
  with pos show ?thesis
    unfolding binade_def by (subst floor_log_eq_powr_iff) simp_all
qed

lemma roundDouble_eval:
  assumes "2 powi e \<le> \<bar>x\<bar>" and "\<bar>x\<bar> < 2 powi (e + 1)" and "- 1022 \<le> e"
  shows "roundDouble x = of_int (roundTiesToEven (x / 2 powi (e - 52))) * 2 powi (e - 52)"
proof -
  have "x \<noteq> 0" using assms(1) by (smt (verit) zero_less_power_int)
  moreover have "max (binade x) (- 1022) = e" using binade_eqI [OF assms(1,2)] assms(3) by simp
  ultimately show ?thesis by (simp add: roundDouble_def Let_def)
qed

lemma roundDouble_nonneg: "0 \<le> x \<Longrightarrow> 0 \<le> roundDouble x"
  by (auto simp: roundDouble_def Let_def intro!: mult_nonneg_nonneg roundTiesToEven_nonneg divide_nonneg_pos)

lemma binade_bounds:
  assumes "x \<noteq> 0"
  shows "2 powi (binade x) \<le> \<bar>x\<bar>" and "\<bar>x\<bar> < 2 powi (binade x + 1)"
proof -
  from assms have pos: "0 < \<bar>x\<bar>" by simp
  have "\<lfloor>log 2 \<bar>x\<bar>\<rfloor> = binade x" by (simp add: binade_def)
  with pos have "2 powr real_of_int (binade x) \<le> \<bar>x\<bar> \<and> \<bar>x\<bar> < 2 powr (real_of_int (binade x) + 1)"
    by (subst (asm) floor_log_eq_powr_iff) simp_all
  moreover have "(2::real) powr real_of_int (binade x) = 2 powi (binade x)"
    by (simp add: powr_real_of_int')
  moreover have "(2::real) powr (real_of_int (binade x) + 1) = 2 powi (binade x + 1)"
    using powr_real_of_int' [of 2 "binade x + 1"] by simp
  ultimately show "2 powi (binade x) \<le> \<bar>x\<bar>" and "\<bar>x\<bar> < 2 powi (binade x + 1)"
    by simp_all
qed

lemma roundDouble_exactI:
  assumes "2 powi e \<le> \<bar>x\<bar>" and "\<bar>x\<bar> < 2 powi (e + 1)" and "- 1022 \<le> e"
    and "x / 2 powi (e - 52) = of_int k"
  shows "roundDouble x = x"
proof -
  have "roundDouble x = of_int k * 2 powi (e - 52)"
    by (simp add: roundDouble_eval [OF assms(1-3)] assms(4))
  also have "\<dots> = x" using assms(4) by (simp add: field_simps)
  finally show ?thesis .
qed

lemma roundDouble_of_int:
  assumes "\<bar>n\<bar> \<le> 2 ^ 53"
  shows "roundDouble (of_int n) = of_int n"
proof (cases "n = 0")
  case True
  then show ?thesis by (simp add: roundDouble_def)
next
  case False
  define x :: real where "x = of_int n"
  define e where "e = binade x"
  from False have x0: "x \<noteq> 0" and x1: "1 \<le> \<bar>x\<bar>" by (simp_all add: x_def)
  from assms have x53: "\<bar>x\<bar> \<le> 2 ^ 53"
  proof -
    from assms have "real_of_int \<bar>n\<bar> \<le> real_of_int (2 ^ 53)" by (rule of_int_le_iff [THEN iffD2])
    then show ?thesis by (simp add: x_def)
  qed
  note b = binade_bounds [OF x0, folded e_def]
  have e0: "0 \<le> e"
  proof (rule ccontr)
    assume "\<not> 0 \<le> e"
    then have "e + 1 \<le> 0" by simp
    then have "(2::real) powi (e + 1) \<le> 2 powi 0" by (intro power_int_increasing) simp_all
    with b(2) x1 show False by simp
  qed
  have e53: "e \<le> 53"
  proof (rule ccontr)
    assume "\<not> e \<le> 53"
    then have "54 \<le> e" by simp
    then have "(2::real) powi 54 \<le> 2 powi e" by (intro power_int_increasing) simp_all
    with b(1) x53 show False by simp
  qed
  have "\<exists>k. x / 2 powi (e - 52) = of_int k"
  proof (cases "e = 53")
    case True
    with b(1) x53 have "\<bar>x\<bar> = 2 ^ 53" by simp
    then have "x = 2 ^ 53 \<or> x = - (2 ^ 53)" by (simp add: abs_if split: if_splits)
    then show ?thesis
    proof
      assume "x = 2 ^ 53"
      then have "x / 2 powi (e - 52) = of_int (2 ^ 52)" using True by simp
      then show ?thesis by blast
    next
      assume "x = - (2 ^ 53)"
      then have "x / 2 powi (e - 52) = of_int (- (2 ^ 52))" using True by simp
      then show ?thesis by blast
    qed
  next
    case False
    with e53 have le: "e \<le> 52" by simp
    define j where "j = nat (52 - e)"
    from le have "e - 52 = - int j" by (simp add: j_def)
    then have "(2::real) powi (e - 52) = inverse (2 ^ j)"
      by (simp add: power_int_minus)
    then have "x / 2 powi (e - 52) = of_int (n * 2 ^ j)"
      by (simp add: x_def field_simps)
    then show ?thesis by blast
  qed
  then obtain k where k: "x / 2 powi (e - 52) = of_int k" by blast
  from e0 have "- 1022 \<le> e" by simp
  from roundDouble_exactI [OF b(1) b(2) this k] show ?thesis by (simp add: x_def)
qed

lemma roundDouble_numeral:
  "(numeral k :: int) \<le> 2 ^ 53 \<Longrightarrow> roundDouble (numeral k) = numeral k"
  "(numeral k :: int) \<le> 2 ^ 53 \<Longrightarrow> roundDouble (- numeral k) = - numeral k"
  using roundDouble_of_int [of "numeral k"] roundDouble_of_int [of "- numeral k"] by simp_all

lemma roundDouble_0 [simp]: "roundDouble 0 = 0"
  by (simp add: roundDouble_def)

lemma roundDouble_1 [simp]: "roundDouble 1 = 1" "roundDouble (- 1) = - 1"
  using roundDouble_of_int [of 1] roundDouble_of_int [of "- 1"] by simp_all

lemma foldl_rounded_exact:
  "noRounding a ms \<Longrightarrow>
     foldl (\<lambda>sum member. roundDouble (sum + complianceBalance member)) a ms
       = a + sum_list (map complianceBalance ms)"
  by (induction ms arbitrary: a) simp_all

lemma sumCB_exact: "noRounding 0 ms \<Longrightarrow> sumCB ms = sum_list (map complianceBalance ms)"
  using foldl_rounded_exact [of 0 ms] by (simp add: sumCB_def)



lemma recalculateTotalCB_total:
  "totalCB (recalculateTotalCB p) = sumCB (members p)"
  "isCompliant (recalculateTotalCB p) = (0 \<le> totalCB (recalculateTotalCB p))"
  "members (recalculateTotalCB p) = members p"
  by (simp_all add: recalculateTotalCB_def Let_def)

lemma findIndex_range: "findIndex P xs = -1 \<or> (0 \<le> findIndex P xs \<and> findIndex P xs < int (length xs))"
  by (induction xs) (auto simp: Let_def)

lemma findIndex_hit:
  "findIndex P xs \<noteq> -1 \<Longrightarrow> P (xs ! nat (findIndex P xs)) \<and> (\<forall>j < nat (findIndex P xs). \<not> P (xs ! j))"
proof (induction xs)
  case Nil
  then show ?case by simp
next
  case (Cons x xs)
  show ?case
  proof (cases "P x")
    case True
    then show ?thesis by simp
  next
    case False
    with Cons.prems have ne: "findIndex P xs \<noteq> -1" by (auto simp: Let_def split: if_splits)
    from findIndex_range [of P xs] ne have ge: "0 \<le> findIndex P xs" by auto
    from False ne have eq: "findIndex P (x # xs) = findIndex P xs + 1" by (simp add: Let_def)
    from ge have n: "nat (findIndex P xs + 1) = Suc (nat (findIndex P xs))" by simp
    from Cons.IH [OF ne] False show ?thesis
      unfolding eq n by (auto simp: less_Suc_eq_0_disj)
  qed
qed

lemma findIndex_miss: "findIndex P xs = -1 \<longleftrightarrow> (\<forall>x \<in> set xs. \<not> P x)"
proof (induction xs)
  case Nil
  then show ?case by simp
next
  case (Cons x xs)
  from findIndex_range [of P xs] show ?case using Cons by (auto simp: Let_def)
qed

lemma createPool_AB: "createPool 7 ''Pool 1'' 2025 [shipA, shipB] None None = Inr poolAB"
  by (simp add: createPool_def new_Pool_def validate_Pool_def sumCB_def roundDouble_numeral isBlank_def trim_def
      isWhiteSpace_def shipA_def shipB_def poolAB_def Let_def)

lemma addMember_C:
  "addMember shipC poolAB = (Inr (), poolAB\<lparr>members := [shipA, shipB, shipC]\<rparr>)"
  by (simp add: addMember_def recalculateTotalCB_def sumCB_def roundDouble_numeral shipA_def shipB_def shipC_def poolAB_def Let_def)

lemma removeMember_A:
  "removeMember ''SHIP-A'' (poolAB\<lparr>members := [shipA, shipB, shipC]\<rparr>)
     = (Inr (), poolAB\<lparr>members := [shipB, shipC], totalCB := - 4000000, isCompliant := False\<rparr>)"
  by (simp add: removeMember_def recalculateTotalCB_def sumCB_def roundDouble_numeral splice1_def shipA_def shipB_def shipC_def poolAB_def Let_def)







lemma createPool_DE: "createPool 7 ''Pool 2'' 2025 [shipD, shipE] None None = Inr poolDE"
  by (simp add: createPool_def new_Pool_def validate_Pool_def sumCB_def roundDouble_numeral isBlank_def trim_def
      isWhiteSpace_def shipD_def shipE_def poolDE_def Let_def)

lemma createPool_fields:
  assumes "createPool now name y ms creator descr = Inr p"
  shows "members p = ms" "totalCB p = sumCB ms" "isCompliant p = (sumCB ms \<ge> 0)"
  using assms by (auto simp: createPool_def new_Pool_def Let_def split: sum.splits)

lemma validate_BankingRecord_ok:
  "validate_BankingRecord props = Inr () \<longleftrightarrow>
     \<not> isBlank (br_shipId props) \<and> 2025 \<le> br_year props \<and> br_year props \<le> 2030 \<and>
     0 < amount props \<and> 0 \<le> remainingBalance props \<and>
     \<not> (transactionType props = BORROW \<and> noSourceYear (sourceYear props))"
  by (auto simp: validate_BankingRecord_def)

lemma validateInput_ApplyBanking_ok:
  "validateInput_ApplyBanking input = Inr () \<longleftrightarrow>
     \<not> isBlank (ab_shipId input) \<and> 2025 \<le> ab_year input \<and> ab_year input \<le> 2030 \<and>
     0 < ab_amount input \<and> 2025 \<le> ab_sourceYear input \<and> ab_sourceYear input \<le> 2030 \<and>
     ab_sourceYear input < ab_year input"
  by (auto simp: validateInput_ApplyBanking_def)

lemma new_BankingRecord_Inr:
  "new_BankingRecord now props = Inr r \<longleftrightarrow>
     validate_BankingRecord props = Inr () \<and>
     r = props\<lparr>transactionDate :=
                (case transactionDate props of None \<Rightarrow> Some now | Some d \<Rightarrow> Some d)\<rparr>"
  by (auto simp: new_BankingRecord_def split: sum.splits)

lemma new_BankingRecord_Inl:
  "(\<exists>e. new_BankingRecord now props = Inl e) \<longleftrightarrow> validate_BankingRecord props \<noteq> Inr ()"
  by (cases "validate_BankingRecord props") (auto simp: new_BankingRecord_def)

lemma createBorrowTransaction_ok:
  assumes "\<not> isBlank sid" "2025 \<le> y" "y \<le> 2030" "0 < amt" "amt \<le> cur" "srcYear \<noteq> 0"
  shows "createBorrowTransaction now sid y amt srcYear cur descr
           = Inr (borrowRecord now sid y amt srcYear cur descr)"
  using assms roundDouble_nonneg [of "cur - amt"]
  by (simp add: createBorrowTransaction_def new_BankingRecord_def validate_BankingRecord_def
      noSourceYear_def borrowRecord_def)


lemma save_ok:
  assumes "validate_BankingRecord r = Inr ()" "transactionDate r = Some d"
  shows "save newId r rows = (Inr (r\<lparr>br_id := Some newId\<rparr>), rows @ [r\<lparr>br_id := Some newId\<rparr>])"
proof -
  have v: "validate_BankingRecord (r\<lparr>br_id := Some newId\<rparr>) = Inr ()"
    using assms(1) by (simp add: validate_BankingRecord_ok)
  have "r\<lparr>br_id := Some newId, transactionDate := Some d\<rparr> = r\<lparr>br_id := Some newId\<rparr>"
    using assms(2) by simp
  with v assms(2) show ?thesis
    by (simp add: save_def Let_def new_BankingRecord_def)
qed

lemma execute_ApplyBanking_ok:
  fixes now :: nat and newId :: string and input :: ApplyBankingInput and rows :: ledger
  assumes v: "validateInput_ApplyBanking input = Inr ()"
    and le: "ab_amount input \<le> getCurrentBalance (ab_shipId input) rows"
  defines "cur \<equiv> getCurrentBalance (ab_shipId input) rows"
  defines "saved \<equiv> (borrowRecord now (ab_shipId input) (ab_year input) (ab_amount input)
                       (ab_sourceYear input) cur (ab_description input))\<lparr>br_id := Some newId\<rparr>"
  shows "execute_ApplyBanking now newId input rows =
           (Inr \<lparr>transaction = saved, previousBalance = cur,
                 newBalance = roundDouble (cur - ab_amount input),
                 amountTonnes = ab_amount input / 1000000,
                 previousBalanceTonnes = cur / 1000000,
                 newBalanceTonnes = roundDouble (cur - ab_amount input) / 1000000\<rparr>,
            rows @ [saved])"
proof -
  from v have c: "\<not> isBlank (ab_shipId input)" "2025 \<le> ab_year input" "ab_year input \<le> 2030"
    "0 < ab_amount input" "ab_sourceYear input \<noteq> 0"
    by (auto simp: validateInput_ApplyBanking_ok)
  let ?r = "borrowRecord now (ab_shipId input) (ab_year input) (ab_amount input)
              (ab_sourceYear input) cur (ab_description input)"
  from le have le': "ab_amount input \<le> cur" by (simp add: cur_def)
  have b: "createBorrowTransaction now (ab_shipId input) (ab_year input) (ab_amount input)
             (ab_sourceYear input) cur (ab_description input) = Inr ?r"
    by (rule createBorrowTransaction_ok [OF c(1-4) le' c(5)])
  have vr: "validate_BankingRecord ?r = Inr ()"
    using c le' roundDouble_nonneg [of "cur - ab_amount input"]
    by (simp add: validate_BankingRecord_ok borrowRecord_def noSourceYear_def)
  have d: "transactionDate ?r = Some now" by (simp add: borrowRecord_def)
  have s: "save newId ?r rows = (Inr saved, rows @ [saved])"
    unfolding saved_def by (rule save_ok [OF vr d])
  have rb: "remainingBalance saved = roundDouble (cur - ab_amount input)"
    by (simp add: saved_def borrowRecord_def)
  from le' have nlt: "\<not> cur < ab_amount input" by simp
  show ?thesis
    unfolding execute_ApplyBanking_def
    by (simp add: v Let_def cur_def [symmetric] nlt b s rb)
qed

lemma execute_ApplyBanking_Inr:
  assumes "execute_ApplyBanking now newId input rows = (Inr out, rows')"
  shows "validateInput_ApplyBanking input = Inr ()"
    and "ab_amount input \<le> getCurrentBalance (ab_shipId input) rows"
proof -
  show v: "validateInput_ApplyBanking input = Inr ()"
  proof (cases "validateInput_ApplyBanking input")
    case (Inl e)
    with assms show ?thesis by (simp add: execute_ApplyBanking_def)
  next
    case (Inr u)
    then show ?thesis by simp
  qed
  show "ab_amount input \<le> getCurrentBalance (ab_shipId input) rows"
  proof (rule ccontr)
    assume "\<not> ab_amount input \<le> getCurrentBalance (ab_shipId input) rows"
    then have "getCurrentBalance (ab_shipId input) rows < ab_amount input" by simp
    with assms v show False by (simp add: execute_ApplyBanking_def Let_def)
  qed
qed

lemma isBlank_SHIP_A: "\<not> isBlank ''SHIP-A''"
  by (simp add: isBlank_def trim_def isWhiteSpace_def)

lemma borrowRequest_valid: "validateInput_ApplyBanking borrowRequest = Inr ()"
  by (simp add: validateInput_ApplyBanking_ok isBlank_SHIP_A borrowRequest_def)


lemma balance_bankedRow: "getCurrentBalance ''SHIP-A'' [bankedRow] = 100000000"
  by (simp add: getCurrentBalance_def bankedRow_def)

lemma execute_borrowRequest:
  "execute_ApplyBanking 9 ''id-2'' borrowRequest [bankedRow]
     = (Inr borrowOutcome, [bankedRow, transaction borrowOutcome])"
proof -
  have le: "ab_amount borrowRequest \<le> getCurrentBalance (ab_shipId borrowRequest) [bankedRow]"
    using balance_bankedRow by (simp add: borrowRequest_def)
  have "getCurrentBalance (ab_shipId borrowRequest) [bankedRow] = 100000000"
    using balance_bankedRow by (simp add: borrowRequest_def)
  then show ?thesis
    using execute_ApplyBanking_ok [OF borrowRequest_valid le, of 9 "''id-2''"]
    by (simp add: borrowOutcome_def borrowRequest_def roundDouble_numeral)
qed

lemma target_known:
  "map_of FUELEU_TARGETS 2025 = Some (893368 / 10000)"
  "map_of FUELEU_TARGETS 2026 = Some (877528 / 10000)"
  "map_of FUELEU_TARGETS 2027 = Some (861688 / 10000)"
  "map_of FUELEU_TARGETS 2028 = Some (845848 / 10000)"
  "map_of FUELEU_TARGETS 2029 = Some (830008 / 10000)"
  "map_of FUELEU_TARGETS 2030 = Some (814168 / 10000)"
  by (simp_all add: FUELEU_TARGETS_def)

lemma target_unknown: "y < 2025 \<or> 2030 < y \<Longrightarrow> map_of FUELEU_TARGETS y = None"
  by (auto simp: FUELEU_TARGETS_def)

lemma targetOrDefault_unknown:
  "y < 2025 \<or> 2030 < y \<Longrightarrow> targetOrDefault y = 893368 / 10000"
  by (simp add: targetOrDefault_def target_unknown target_known)

lemma targetOrDefault_2025: "targetOrDefault 2025 = 893368 / 10000"
  by (simp add: targetOrDefault_def target_known)

lemma target_in_table:
  assumes "2025 \<le> y" and "y \<le> 2030"
  shows "map_of FUELEU_TARGETS y = Some (tableTarget y)"
proof -
  from assms have "y = 2025 \<or> y = 2026 \<or> y = 2027 \<or> y = 2028 \<or> y = 2029 \<or> y = 2030"
    by arith
  then show ?thesis
    by (elim disjE) (simp_all add: target_known tableTarget_def)
qed

lemma difference_factored:
  "difference tgt route = (tgt - ghgIntensity route) * (fuelConsumption route * 41000)"
  by (simp add: difference_def targetEmissions_def actualEmissions_def energyInScope_def
      algebra_simps)

lemma createFromRoute_scenario: "createFromRoute ''SHIP-A'' 2025 5000 91 1 = Inr scenarioCB"
  by (simp add: createFromRoute_def isBlank_SHIP_A target_known Let_def scenarioCB_def)

lemma difference_scenario: "difference (targetOrDefault 2025) routeR001 = - 340956000"
  by (simp add: difference_factored targetOrDefault_2025 routeR001_def)

section \<open>Pool aggregator\<close>

text \<open>
  Claim C5, as stated, fails on the rounding of the additions: the pool created from ships
  with the balances -1, -2^53 and 2^53 (each a double, the partial sum \<open>-2^53 - 1\<close> is not)
  holds the total 0 and is compliant, while the sum of the three balances is -1.
\<close>

theorem pool_total_rounds_away_from_sum:
  "roundDouble (complianceBalance shipX) = complianceBalance shipX
   \<and> roundDouble (complianceBalance shipY) = complianceBalance shipY
   \<and> roundDouble (complianceBalance shipZ) = complianceBalance shipZ
   \<and> createPool 7 ''Pool 3'' 2025 [shipX, shipY, shipZ] None None = Inr poolXYZ
   \<and> totalCB poolXYZ = 0
   \<and> isCompliant poolXYZ = True
   \<and> sum_list (map complianceBalance (members poolXYZ)) = - 1
   \<and> totalCB poolXYZ \<noteq> sum_list (map complianceBalance (members poolXYZ))
   \<and> isCompliant poolXYZ \<noteq> (sum_list (map complianceBalance (members poolXYZ)) \<ge> 0)"
proof -
  have r: "roundDouble (- 9007199254740993) = - 9007199254740992"
  proof -
    have "roundDouble (- 9007199254740993)
            = of_int (roundTiesToEven (- 9007199254740993 / 2 powi (53 - 52))) * 2 powi (53 - 52)"
      by (rule roundDouble_eval) simp_all
    also have "\<dots> = - 9007199254740992" by (simp add: roundTiesToEven_def Let_def)
    finally show ?thesis .
  qed
  have s: "sumCB [shipX, shipY, shipZ] = 0"
    by (simp add: sumCB_def shipX_def shipY_def shipZ_def roundDouble_numeral r)
  have nb: "\<not> isBlank ''Pool 3''" by (simp add: isBlank_def trim_def isWhiteSpace_def)
  have ids: "shipId shipX = ''SHIP-X''" "shipId shipY = ''SHIP-Y''" "shipId shipZ = ''SHIP-Z''"
    by (simp_all add: shipX_def shipY_def shipZ_def)
  have c: "createPool 7 ''Pool 3'' 2025 [shipX, shipY, shipZ] None None = Inr poolXYZ"
    by (simp add: createPool_def new_Pool_def validate_Pool_def s nb ids poolXYZ_def Let_def)
  have d: "roundDouble (complianceBalance shipX) = complianceBalance shipX"
    "roundDouble (complianceBalance shipY) = complianceBalance shipY"
    "roundDouble (complianceBalance shipZ) = complianceBalance shipZ"
    by (simp_all add: shipX_def shipY_def shipZ_def roundDouble_numeral)
  have e: "sum_list (map complianceBalance (members poolXYZ)) = - 1"
    by (simp add: poolXYZ_def shipX_def shipY_def shipZ_def)
  have t: "totalCB poolXYZ = 0" "isCompliant poolXYZ = True" by (simp_all add: poolXYZ_def)
  from c d e t show ?thesis by simp
qed

text \<open>
  Claim C5, amended. After \<open>createPool\<close> and after every successful \<open>addMember\<close> or
  \<open>removeMember\<close>, \<open>totalCB\<close> is the members' \<open>complianceBalance\<close> values added from the left
  in double arithmetic, recomputed from the whole member list whatever total the pool
  held before, and \<open>isCompliant\<close> is \<open>totalCB \<ge> 0\<close>. Whenever none of these additions rounds,
  \<open>totalCB\<close> is the exact sum of the members' balances.
\<close>

theorem pool_total_is_sum_of_members:
  "(createPool now name y ms creator descr = Inr p1 \<longrightarrow>
      members p1 = ms \<and>
      totalCB p1 = sumCB (members p1) \<and>
      isCompliant p1 = (totalCB p1 \<ge> 0) \<and>
      (noRounding 0 (members p1) \<longrightarrow>
         totalCB p1 = sum_list (map complianceBalance (members p1))))
   \<and> (addMember m p = (Inr (), p2) \<longrightarrow>
      members p2 = members p @ [m] \<and>
      totalCB p2 = sumCB (members p2) \<and>
      isCompliant p2 = (totalCB p2 \<ge> 0) \<and>
      (noRounding 0 (members p2) \<longrightarrow>
         totalCB p2 = sum_list (map complianceBalance (members p2))))
   \<and> (removeMember sid q = (Inr (), p3) \<longrightarrow>
      (\<exists>i < length (members q). shipId (members q ! i) = sid \<and>
          members p3 = take i (members q) @ drop (Suc i) (members q)) \<and>
      totalCB p3 = sumCB (members p3) \<and>
      isCompliant p3 = (totalCB p3 \<ge> 0) \<and>
      (noRounding 0 (members p3) \<longrightarrow>
         totalCB p3 = sum_list (map complianceBalance (members p3))))"
proof (intro conjI impI)
  assume c: "createPool now name y ms creator descr = Inr p1"
  then have p1: "members p1 = ms" "totalCB p1 = sumCB ms" "isCompliant p1 = (sumCB ms \<ge> 0)"
    by (auto simp: createPool_def new_Pool_def Let_def split: sum.splits)
  show "members p1 = ms" by (rule p1)
  show t: "totalCB p1 = sumCB (members p1)" by (simp add: p1)
  show "isCompliant p1 = (totalCB p1 \<ge> 0)" by (simp add: p1)
  assume "noRounding 0 (members p1)"
  then show "totalCB p1 = sum_list (map complianceBalance (members p1))"
    by (simp add: t sumCB_exact)
next
  assume a: "addMember m p = (Inr (), p2)"
  then have p2: "p2 = recalculateTotalCB (p\<lparr>members := members p @ [m]\<rparr>)"
    by (auto simp: addMember_def Let_def split: if_splits)
  show "members p2 = members p @ [m]" by (simp add: p2 recalculateTotalCB_total)
  show t: "totalCB p2 = sumCB (members p2)" by (simp add: p2 recalculateTotalCB_total)
  show "isCompliant p2 = (totalCB p2 \<ge> 0)"
    unfolding p2 by (rule recalculateTotalCB_total)
  assume "noRounding 0 (members p2)"
  then show "totalCB p2 = sum_list (map complianceBalance (members p2))"
    by (simp add: t sumCB_exact)
next
  assume r: "removeMember sid q = (Inr (), p3)"
  let ?P = "\<lambda>m. shipId m = sid"
  let ?i = "findIndex ?P (members q)"
  from r have ne: "?i \<noteq> -1"
    and p3: "p3 = recalculateTotalCB (q\<lparr>members := splice1 (nat ?i) (members q)\<rparr>)"
    by (auto simp: removeMember_def Let_def split: if_splits)
  from findIndex_range [of ?P "members q"] ne
  have lt: "nat ?i < length (members q)" by auto
  from findIndex_hit [OF ne] have hit: "shipId (members q ! nat ?i) = sid" by simp
  have "members p3 = take (nat ?i) (members q) @ drop (Suc (nat ?i)) (members q)"
    by (simp add: p3 recalculateTotalCB_total splice1_def)
  with lt hit
  show "\<exists>i < length (members q). shipId (members q ! i) = sid \<and>
          members p3 = take i (members q) @ drop (Suc i) (members q)"
    by blast
  show t: "totalCB p3 = sumCB (members p3)" by (simp add: p3 recalculateTotalCB_total)
  show "isCompliant p3 = (totalCB p3 \<ge> 0)"
    unfolding p3 by (rule recalculateTotalCB_total)
  assume "noRounding 0 (members p3)"
  then show "totalCB p3 = sum_list (map complianceBalance (members p3))"
    by (simp add: t sumCB_exact)
qed

theorem pool_total_is_sum_of_members_witness:
  "createPool 7 ''Pool 1'' 2025 [shipA, shipB] None None = Inr poolAB
   \<and> noRounding 0 (members poolAB)
   \<and> totalCB poolAB = 10000000 + (- 4000000) \<and> isCompliant poolAB
   \<and> addMember shipC poolAB = (Inr (), poolAB\<lparr>members := [shipA, shipB, shipC]\<rparr>)
   \<and> noRounding 0 (members (poolAB\<lparr>members := [shipA, shipB, shipC]\<rparr>))
   \<and> totalCB (poolAB\<lparr>members := [shipA, shipB, shipC]\<rparr>) = 10000000 + (- 4000000) + 0
   \<and> removeMember ''SHIP-A'' (poolAB\<lparr>members := [shipA, shipB, shipC]\<rparr>)
        = (Inr (), poolAB\<lparr>members := [shipB, shipC], totalCB := - 4000000, isCompliant := False\<rparr>)
   \<and> noRounding 0 (members (poolAB\<lparr>members := [shipB, shipC], totalCB := - 4000000,
                                       isCompliant := False\<rparr>))
   \<and> totalCB (poolAB\<lparr>members := [shipB, shipC], totalCB := - 4000000, isCompliant := False\<rparr>)
        = - 4000000 + 0"
proof -
  note inst = pool_total_is_sum_of_members
    [where now = 7 and name = "''Pool 1''" and y = 2025 and ms = "[shipA, shipB]"
       and creator = None and descr = None and ?p1.0 = poolAB
       and m = shipC and p = poolAB and ?p2.0 = "poolAB\<lparr>members := [shipA, shipB, shipC]\<rparr>"
       and sid = "''SHIP-A''" and q = "poolAB\<lparr>members := [shipA, shipB, shipC]\<rparr>"
       and ?p3.0 = "poolAB\<lparr>members := [shipB, shipC], totalCB := - 4000000, isCompliant := False\<rparr>"]
  have ms: "members poolAB = [shipA, shipB]" by (simp add: poolAB_def)
  have cbs: "complianceBalance shipA = 10000000" "complianceBalance shipB = - 4000000"
    "complianceBalance shipC = 0" by (simp_all add: shipA_def shipB_def shipC_def)
  have n1: "noRounding 0 (members poolAB)" by (simp add: ms cbs roundDouble_numeral)
  have n2: "noRounding 0 (members (poolAB\<lparr>members := [shipA, shipB, shipC]\<rparr>))"
    by (simp add: cbs roundDouble_numeral)
  have n3: "noRounding 0 (members (poolAB\<lparr>members := [shipB, shipC], totalCB := - 4000000,
                                       isCompliant := False\<rparr>))"
    by (simp add: cbs roundDouble_numeral)
  from inst createPool_AB n1
  have a: "totalCB poolAB = sum_list (map complianceBalance (members poolAB))"
    and a': "isCompliant poolAB = (totalCB poolAB \<ge> 0)" by blast+
  from inst addMember_C n2
  have b: "totalCB (poolAB\<lparr>members := [shipA, shipB, shipC]\<rparr>)
     = sum_list (map complianceBalance (members (poolAB\<lparr>members := [shipA, shipB, shipC]\<rparr>)))"
    by blast
  from inst removeMember_A n3
  have c: "totalCB (poolAB\<lparr>members := [shipB, shipC], totalCB := - 4000000, isCompliant := False\<rparr>)
     = sum_list (map complianceBalance (members (poolAB\<lparr>members := [shipB, shipC], totalCB := - 4000000, isCompliant := False\<rparr>)))"
    by blast
  have 1: "totalCB poolAB = 10000000 + (- 4000000)" using a by (simp add: ms cbs)
  have 2: "isCompliant poolAB" using a' 1 by simp
  have 3: "totalCB (poolAB\<lparr>members := [shipA, shipB, shipC]\<rparr>) = 10000000 + (- 4000000) + 0"
    using b by (simp add: cbs)
  have 4: "totalCB (poolAB\<lparr>members := [shipB, shipC], totalCB := - 4000000, isCompliant := False\<rparr>)
        = - 4000000 + 0" using c by (simp add: cbs)
  from createPool_AB addMember_C removeMember_A n1 n2 n3 1 2 3 4 show ?thesis by blast
qed

text \<open>
  Claim C2. Removing a member from a pool of exactly two members raises the minimum-size
  error, but the member has already been spliced out when the check runs: the pool is left
  with one member, and \<open>totalCB\<close> and \<open>isCompliant\<close> still describe the two former members.
  The evaluation below is the pool of SHIP-A (10,000,000 g) and SHIP-B (-4,000,000 g).
\<close>

theorem removeMember_two_members_partial_mutation:
  "removeMember ''SHIP-A'' poolAB = (Inl PoolTooSmall, poolAB\<lparr>members := [shipB]\<rparr>)
   \<and> members (snd (removeMember ''SHIP-A'' poolAB)) \<noteq> members poolAB
   \<and> totalCB (snd (removeMember ''SHIP-A'' poolAB)) = 6000000
   \<and> sumCB (members (snd (removeMember ''SHIP-A'' poolAB))) = - 4000000
   \<and> isCompliant (snd (removeMember ''SHIP-A'' poolAB)) = True"
  by (simp add: removeMember_def recalculateTotalCB_def sumCB_def roundDouble_numeral splice1_def shipA_def shipB_def poolAB_def Let_def)



text \<open>
  Claim C7. The total penalty of a pool is \<open>|totalCB| / 1,000,000 * 2400\<close> when the pool is
  not compliant and 0 when it is; the penalty per member is the total penalty divided by
  the number of members, whatever the members' own balances. A pool created from two ships
  with balances -10,000,000 g and -5,000,000 g has total -15,000,000 g, penalty 36,000 and
  18,000 per member.
\<close>

theorem pool_penalty_split_evenly:
  "calculatePenalty p = (if isCompliant p then 0 else (\<bar>totalCB p\<bar> / 1000000) * 2400)
   \<and> (members p \<noteq> [] \<longrightarrow>
        getPenaltyPerMember p = calculatePenalty p / real (length (members p)))
   \<and> (complianceBalance m1 = - 10000000 \<and> complianceBalance m2 = - 5000000 \<and>
        createPool now name y [m1, m2] creator descr = Inr q \<longrightarrow>
        totalCB q = - 15000000 \<and> \<not> isCompliant q \<and>
        calculatePenalty q = 36000 \<and> getPenaltyPerMember q = 18000)"
proof (intro conjI impI)
  show "calculatePenalty p = (if isCompliant p then 0 else (\<bar>totalCB p\<bar> / 1000000) * 2400)"
    by (simp add: calculatePenalty_def Let_def)
next
  assume "members p \<noteq> []"
  then show "getPenaltyPerMember p = calculatePenalty p / real (length (members p))"
    by (simp add: getPenaltyPerMember_def Let_def)
next
  assume a: "complianceBalance m1 = - 10000000 \<and> complianceBalance m2 = - 5000000 \<and>
        createPool now name y [m1, m2] creator descr = Inr q"
  then have c: "createPool now name y [m1, m2] creator descr = Inr q" by blast
  from a have s: "sumCB [m1, m2] = - 15000000" by (simp add: sumCB_def roundDouble_numeral)
  from createPool_fields [OF c] s
  have q: "members q = [m1, m2]" "totalCB q = - 15000000" "isCompliant q = False" by simp_all
  show "totalCB q = - 15000000" by (rule q)
  show "\<not> isCompliant q" by (simp add: q)
  have pen: "calculatePenalty q = 36000" by (simp add: calculatePenalty_def Let_def q)
  show "calculatePenalty q = 36000" by (rule pen)
  show "getPenaltyPerMember q = 18000" by (simp add: getPenaltyPerMember_def Let_def pen q)
qed

theorem pool_penalty_split_evenly_witness:
  "members poolDE \<noteq> [] \<and> complianceBalance shipD = - 10000000
   \<and> complianceBalance shipE = - 5000000
   \<and> createPool 7 ''Pool 2'' 2025 [shipD, shipE] None None = Inr poolDE
   \<and> getPenaltyPerMember poolDE = calculatePenalty poolDE / real (length (members poolDE))
   \<and> totalCB poolDE = - 15000000 \<and> \<not> isCompliant poolDE
   \<and> calculatePenalty poolDE = 36000 \<and> getPenaltyPerMember poolDE = 18000"
proof -
  note inst = pool_penalty_split_evenly
    [where p = poolDE and ?m1.0 = shipD and ?m2.0 = shipE and now = 7 and name = "''Pool 2''"
       and y = 2025 and creator = None and descr = None and q = poolDE]
  have ne: "members poolDE \<noteq> []" by (simp add: poolDE_def)
  have cbs: "complianceBalance shipD = - 10000000" "complianceBalance shipE = - 5000000"
    by (simp_all add: shipD_def shipE_def)
  from inst ne cbs createPool_DE show ?thesis by blast
qed

section \<open>Banking ledger\<close>






text \<open>
  Claim C8, as stated, fails on the entity: neither the constructor nor
  \<open>createBorrowTransaction\<close> compares the source year with the year, so a BORROW record for
  2025 with source year 2030 is constructed.
\<close>

theorem borrow_record_source_year_unchecked:
  "createBorrowTransaction 7 ''SHIP-A'' 2025 1 2030 5 None
     = Inr (borrowRecord 7 ''SHIP-A'' 2025 1 2030 5 None)
   \<and> transactionType (borrowRecord 7 ''SHIP-A'' 2025 1 2030 5 None) = BORROW
   \<and> sourceYear (borrowRecord 7 ''SHIP-A'' 2025 1 2030 5 None) = Some 2030
   \<and> br_year (borrowRecord 7 ''SHIP-A'' 2025 1 2030 5 None) = 2025
   \<and> \<not> (2030 < br_year (borrowRecord 7 ''SHIP-A'' 2025 1 2030 5 None))"
proof -
  have "createBorrowTransaction 7 ''SHIP-A'' 2025 1 2030 5 None
     = Inr (borrowRecord 7 ''SHIP-A'' 2025 1 2030 5 None)"
    by (rule createBorrowTransaction_ok) (simp_all add: isBlank_SHIP_A)
  then show ?thesis by (simp add: borrowRecord_def)
qed

text \<open>
  Claim C8, amended. Every successfully constructed record has a strictly positive amount
  and a remaining balance that is not negative, and a BORROW record has a source year that
  is present and not 0; a record that violates one of these is rejected. The order of the
  two years is checked by the borrow use case alone: every record it writes is a BORROW
  record with \<open>2025 \<le> sourceYear < year \<le> 2030\<close>.
\<close>

theorem banking_record_invariants:
  "(new_BankingRecord now props = Inr r \<longrightarrow>
      0 < amount r \<and> 0 \<le> remainingBalance r \<and>
      (transactionType r = BORROW \<longrightarrow> (\<exists>sy. sourceYear r = Some sy \<and> sy \<noteq> 0)))
   \<and> (amount props \<le> 0 \<or> remainingBalance props < 0 \<or>
       (transactionType props = BORROW \<and> noSourceYear (sourceYear props)) \<longrightarrow>
      (\<exists>e. new_BankingRecord now props = Inl e))
   \<and> (execute_ApplyBanking now newId input rows = (Inr out, rows') \<longrightarrow>
      transactionType (transaction out) = BORROW \<and>
      (\<exists>sy. sourceYear (transaction out) = Some sy \<and> 2025 \<le> sy \<and>
            sy < br_year (transaction out) \<and> br_year (transaction out) \<le> 2030))"
proof (intro conjI impI)
  assume n: "new_BankingRecord now props = Inr r"
  then have v: "validate_BankingRecord props = Inr ()"
    and r: "r = props\<lparr>transactionDate :=
                (case transactionDate props of None \<Rightarrow> Some now | Some d \<Rightarrow> Some d)\<rparr>"
    by (simp_all add: new_BankingRecord_Inr)
  from v show "0 < amount r" by (simp add: r validate_BankingRecord_ok)
  from v show "0 \<le> remainingBalance r" by (simp add: r validate_BankingRecord_ok)
  assume "transactionType r = BORROW"
  with v have "\<not> noSourceYear (sourceYear props)" by (simp add: r validate_BankingRecord_ok)
  then show "\<exists>sy. sourceYear r = Some sy \<and> sy \<noteq> 0"
    by (cases "sourceYear props") (simp_all add: r noSourceYear_def)
next
  assume "amount props \<le> 0 \<or> remainingBalance props < 0 \<or>
       (transactionType props = BORROW \<and> noSourceYear (sourceYear props))"
  then have "validate_BankingRecord props \<noteq> Inr ()"
    by (auto simp: validate_BankingRecord_ok)
  then show "\<exists>e. new_BankingRecord now props = Inl e" by (simp add: new_BankingRecord_Inl)
next
  assume ex: "execute_ApplyBanking now newId input rows = (Inr out, rows')"
  note v = execute_ApplyBanking_Inr(1) [OF ex] and le = execute_ApplyBanking_Inr(2) [OF ex]
  from ex have out: "out = fst (projr (fst (execute_ApplyBanking now newId input rows)), ())"
    by simp
  from v have c: "2025 \<le> ab_sourceYear input" "ab_sourceYear input < ab_year input"
    "ab_year input \<le> 2030"
    by (simp_all add: validateInput_ApplyBanking_ok)
  show "transactionType (transaction out) = BORROW"
    unfolding out by (simp add: execute_ApplyBanking_ok [OF v le] borrowRecord_def)
  have "sourceYear (transaction out) = Some (ab_sourceYear input)"
    "br_year (transaction out) = ab_year input"
    unfolding out by (simp_all add: execute_ApplyBanking_ok [OF v le] borrowRecord_def)
  with c show "\<exists>sy. sourceYear (transaction out) = Some sy \<and> 2025 \<le> sy \<and>
            sy < br_year (transaction out) \<and> br_year (transaction out) \<le> 2030"
    by simp
qed

theorem banking_record_invariants_witness:
  "new_BankingRecord 3 bankedRow = Inr bankedRow
   \<and> 0 < amount bankedRow \<and> 0 \<le> remainingBalance bankedRow
   \<and> amount (bankedRow\<lparr>amount := 0\<rparr>) \<le> 0
   \<and> (\<exists>e. new_BankingRecord 3 (bankedRow\<lparr>amount := 0\<rparr>) = Inl e)
   \<and> execute_ApplyBanking 9 ''id-2'' borrowRequest [bankedRow]
        = (Inr borrowOutcome, [bankedRow, transaction borrowOutcome])
   \<and> transactionType (transaction borrowOutcome) = BORROW
   \<and> (\<exists>sy. sourceYear (transaction borrowOutcome) = Some sy \<and> 2025 \<le> sy \<and>
            sy < br_year (transaction borrowOutcome) \<and> br_year (transaction borrowOutcome) \<le> 2030)"
proof -
  have n: "new_BankingRecord 3 bankedRow = Inr bankedRow"
    by (simp add: new_BankingRecord_Inr validate_BankingRecord_ok isBlank_SHIP_A bankedRow_def)
  have z: "amount (bankedRow\<lparr>amount := 0\<rparr>) \<le> 0" by simp
  note i1 = banking_record_invariants [where now = 3 and props = bankedRow and r = bankedRow]
  note i3 = banking_record_invariants [where now = 9
      and newId = "''id-2''" and input = borrowRequest and rows = "[bankedRow]"
      and out = borrowOutcome and rows' = "[bankedRow, transaction borrowOutcome]"]
  note i2 = banking_record_invariants [where now = 3 and props = "bankedRow\<lparr>amount := 0\<rparr>"]
  from i1 n have a: "0 < amount bankedRow \<and> 0 \<le> remainingBalance bankedRow" by blast
  from i2 z have b: "\<exists>e. new_BankingRecord 3 (bankedRow\<lparr>amount := 0\<rparr>) = Inl e" by blast
  from i3 execute_borrowRequest
  have c: "transactionType (transaction borrowOutcome) = BORROW \<and>
      (\<exists>sy. sourceYear (transaction borrowOutcome) = Some sy \<and> 2025 \<le> sy \<and>
            sy < br_year (transaction borrowOutcome) \<and> br_year (transaction borrowOutcome) \<le> 2030)"
    by blast
  from n z a b c execute_borrowRequest show ?thesis by blast
qed

section \<open>Compliance years\<close>

text \<open>
  Claim C3, as stated, fails on the route comparison: for the year 2031, which is not a key
  of the target table, \<open>CompareRoutesUseCase.execute\<close> returns a response, computed with the
  2025 target 89.3368.
\<close>

theorem compare_routes_defaults_unknown_year:
  "map_of FUELEU_TARGETS 2031 = None
   \<and> \<not> isl (execute_CompareRoutes 2031 [routeR001, routeR002])
   \<and> target (projr (execute_CompareRoutes 2031 [routeR001, routeR002])) = 893368 / 10000
   \<and> cr_year (projr (execute_CompareRoutes 2031 [routeR001, routeR002])) = 2031"
  by (simp add: execute_CompareRoutes_def target_unknown targetOrDefault_unknown
      routeR001_def Let_def)

text \<open>
  Claim C3, amended. For a year outside 2025 to 2030 the compliance calculation, the bank
  and borrow use cases, pool creation (use case and entity) and the \<open>BankingRecord\<close>
  constructor reject with a validation error, which is the year error unless the ship
  identifier or pool name checked before it is blank; the two ledger use cases leave the
  ledger as it was. The route comparison does not reject: it answers with the 2025 target,
  and its response differs from the response for 2025 only in the year it echoes.
\<close>

theorem year_out_of_range_rejected_except_comparison:
  assumes "y < 2025 \<or> 2030 < y"
  shows "validateInput_CalculateCB \<lparr>cc_shipId = sid, cc_year = y, cc_routeId = rid\<rparr>
           = Inl (if isBlank sid then ShipIdRequired else YearOutOfRange)
    \<and> execute_BankSurplus now newId
           \<lparr>bs_shipId = sid, bs_year = y, bs_amount = amt, bs_description = d\<rparr> rows
           = (Inl (if isBlank sid then ShipIdRequired else YearOutOfRange), rows)
    \<and> execute_ApplyBanking now newId
           \<lparr>ab_shipId = sid, ab_year = y, ab_amount = amt, ab_sourceYear = sy,
            ab_description = d\<rparr> rows
           = (Inl (if isBlank sid then ShipIdRequired else YearOutOfRange), rows)
    \<and> validateInput_CreatePool
           \<lparr>cp_poolName = name, cp_year = y, ships = ss, cp_createdBy = cby,
            cp_description = d\<rparr>
           = Inl (if isBlank name then PoolNameRequired else YearOutOfRange)
    \<and> createPool now name y ms cby d
           = Inl (if isBlank name then PoolNameRequired else YearOutOfRange)
    \<and> new_BankingRecord now (props\<lparr>br_year := y\<rparr>)
           = Inl (if isBlank (br_shipId props) then ShipIdRequired else YearOutOfRange)
    \<and> targetOrDefault y = 893368 / 10000
    \<and> map_sum id (\<lambda>resp. resp\<lparr>cr_year := 2025\<rparr>) (execute_CompareRoutes y allRoutes)
           = execute_CompareRoutes 2025 allRoutes"
proof (intro conjI)
  show "validateInput_CalculateCB \<lparr>cc_shipId = sid, cc_year = y, cc_routeId = rid\<rparr>
           = Inl (if isBlank sid then ShipIdRequired else YearOutOfRange)"
    using assms by (auto simp: validateInput_CalculateCB_def)
  show "execute_BankSurplus now newId
           \<lparr>bs_shipId = sid, bs_year = y, bs_amount = amt, bs_description = d\<rparr> rows
           = (Inl (if isBlank sid then ShipIdRequired else YearOutOfRange), rows)"
    using assms by (auto simp: execute_BankSurplus_def validateInput_BankSurplus_def)
  show "execute_ApplyBanking now newId
           \<lparr>ab_shipId = sid, ab_year = y, ab_amount = amt, ab_sourceYear = sy,
            ab_description = d\<rparr> rows
           = (Inl (if isBlank sid then ShipIdRequired else YearOutOfRange), rows)"
    using assms by (auto simp: execute_ApplyBanking_def validateInput_ApplyBanking_def)
  show "validateInput_CreatePool
           \<lparr>cp_poolName = name, cp_year = y, ships = ss, cp_createdBy = cby,
            cp_description = d\<rparr>
           = Inl (if isBlank name then PoolNameRequired else YearOutOfRange)"
    using assms by (auto simp: validateInput_CreatePool_def)
  show "createPool now name y ms cby d
           = Inl (if isBlank name then PoolNameRequired else YearOutOfRange)"
    using assms by (auto simp: createPool_def new_Pool_def validate_Pool_def Let_def)
  show "new_BankingRecord now (props\<lparr>br_year := y\<rparr>)
           = Inl (if isBlank (br_shipId props) then ShipIdRequired else YearOutOfRange)"
    using assms by (auto simp: new_BankingRecord_def validate_BankingRecord_def)
  show t: "targetOrDefault y = 893368 / 10000"
    by (rule targetOrDefault_unknown [OF assms])
  show "map_sum id (\<lambda>resp. resp\<lparr>cr_year := 2025\<rparr>) (execute_CompareRoutes y allRoutes)
           = execute_CompareRoutes 2025 allRoutes"
    by (cases "find isBaseline allRoutes")
       (simp_all add: execute_CompareRoutes_def Let_def t targetOrDefault_2025)
qed

theorem year_out_of_range_rejected_except_comparison_witness:
  "((2031::int) < 2025 \<or> (2030::int) < 2031)
   \<and> validateInput_CalculateCB \<lparr>cc_shipId = ''SHIP-A'', cc_year = 2031, cc_routeId = None\<rparr>
        = Inl YearOutOfRange
   \<and> execute_ApplyBanking 9 ''id-2''
        \<lparr>ab_shipId = ''SHIP-A'', ab_year = 2031, ab_amount = 1, ab_sourceYear = 2025,
         ab_description = None\<rparr> [bankedRow] = (Inl YearOutOfRange, [bankedRow])
   \<and> createPool 7 ''Pool 1'' 2031 [shipA, shipB] None None = Inl YearOutOfRange
   \<and> targetOrDefault 2031 = 893368 / 10000
   \<and> map_sum id (\<lambda>resp. resp\<lparr>cr_year := 2025\<rparr>)
        (execute_CompareRoutes 2031 [routeR001, routeR002])
        = execute_CompareRoutes 2025 [routeR001, routeR002]"
proof -
  have h: "(2031::int) < 2025 \<or> (2030::int) < 2031" by simp
  have nb: "\<not> isBlank ''Pool 1''" by (simp add: isBlank_def trim_def isWhiteSpace_def)
  note inst = year_out_of_range_rejected_except_comparison [OF h,
      where sid = "''SHIP-A''" and rid = None and now = 9 and newId = "''id-2''" and amt = 1
        and sy = 2025 and d = None and rows = "[bankedRow]" and allRoutes = "[routeR001, routeR002]"]
  note inst2 = year_out_of_range_rejected_except_comparison [OF h,
      where now = 7 and name = "''Pool 1''" and ms = "[shipA, shipB]" and cby = None and d = None]
  from inst have 1: "validateInput_CalculateCB \<lparr>cc_shipId = ''SHIP-A'', cc_year = 2031, cc_routeId = None\<rparr>
        = Inl YearOutOfRange" by (simp add: isBlank_SHIP_A)
  from inst have 2: "execute_ApplyBanking 9 ''id-2''
        \<lparr>ab_shipId = ''SHIP-A'', ab_year = 2031, ab_amount = 1, ab_sourceYear = 2025,
         ab_description = None\<rparr> [bankedRow] = (Inl YearOutOfRange, [bankedRow])"
    by (simp add: isBlank_SHIP_A)
  from inst2 have 3: "createPool 7 ''Pool 1'' 2031 [shipA, shipB] None None = Inl YearOutOfRange"
    by (simp add: nb)
  from inst have 4: "targetOrDefault 2031 = 893368 / 10000" by blast
  from inst have 5: "map_sum id (\<lambda>resp. resp\<lparr>cr_year := 2025\<rparr>)
        (execute_CompareRoutes 2031 [routeR001, routeR002])
        = execute_CompareRoutes 2025 [routeR001, routeR002]" by blast
  from h 1 2 3 4 5 show ?thesis by blast
qed

section \<open>Compliance balance\<close>

text \<open>
  Claim C1. For a ship identifier that is not blank, a year from 2025 to 2030 and any fuel
  mass, actual intensity and multiplier, the calculation succeeds with the target of the
  year (89.3368, 87.7528, 86.1688, 84.5848, 83.0008, 81.4168) and the balance
  \<open>(target - ghgActual) * (fuel * 41000) * multiplier\<close>; a positive balance is a surplus and a
  negative one a deficit. The route comparison of the sources computes the same quantity
  with multiplier 1 as target emissions minus actual emissions.
\<close>

theorem compliance_balance_formula:
  assumes "\<not> isBlank sid" and "2025 \<le> y" and "y \<le> 2030"
  shows "\<exists>cb. map_of FUELEU_TARGETS y = Some (tableTarget y) \<and>
           createFromRoute sid y fuel actual multiplier = Inr cb \<and>
           balanceGrams cb = (tableTarget y - actual) * (fuel * 41000) * multiplier \<and>
           cb_isCompliant cb = (balanceGrams cb \<ge> 0) \<and>
           (balanceGrams cb > 0 \<longrightarrow> surplusAmount cb = balanceGrams cb \<and> deficitAmount cb = 0) \<and>
           (balanceGrams cb < 0 \<longrightarrow> deficitAmount cb = - balanceGrams cb \<and> surplusAmount cb = 0) \<and>
           targetOrDefault y = tableTarget y \<and>
           difference (targetOrDefault y) route
             = (tableTarget y - ghgIntensity route) * (fuelConsumption route * 41000) * 1"
proof -
  note t = target_in_table [OF assms(2,3)]
  have td: "targetOrDefault y = tableTarget y" by (simp add: targetOrDefault_def t)
  let ?bal = "(tableTarget y - actual) * (fuel * 41000) * multiplier"
  let ?cb = "\<lparr>cb_shipId = sid, cb_year = y, cb_energyInScope = fuel * 41000,
              ghgTarget = tableTarget y, ghgActual = actual, balanceGrams = ?bal,
              balanceTonnes = ?bal / 1000000, cb_isCompliant = (?bal \<ge> 0),
              surplusAmount = max ?bal 0, deficitAmount = max (- ?bal) 0,
              penalty = (max (- ?bal) 0 / 1000000) * 2400\<rparr>"
  have c: "createFromRoute sid y fuel actual multiplier = Inr ?cb"
    using assms(1) by (simp add: createFromRoute_def t Let_def)
  have 1: "balanceGrams ?cb = ?bal" by simp
  have 2: "cb_isCompliant ?cb = (balanceGrams ?cb \<ge> 0)" by simp
  have 3: "balanceGrams ?cb > 0 \<longrightarrow> surplusAmount ?cb = balanceGrams ?cb \<and> deficitAmount ?cb = 0"
    by (simp add: max_def)
  have 4: "balanceGrams ?cb < 0 \<longrightarrow> deficitAmount ?cb = - balanceGrams ?cb \<and> surplusAmount ?cb = 0"
    by (simp add: max_def)
  have 5: "difference (targetOrDefault y) route
             = (tableTarget y - ghgIntensity route) * (fuelConsumption route * 41000) * 1"
    by (simp add: td difference_factored)
  from t c 1 2 3 4 td 5 show ?thesis by blast
qed

theorem compliance_balance_formula_witness:
  "\<not> isBlank ''SHIP-A'' \<and> (2025::int) \<le> 2026 \<and> (2026::int) \<le> 2030
   \<and> (\<exists>cb. map_of FUELEU_TARGETS 2026 = Some (877528 / 10000) \<and>
           createFromRoute ''SHIP-A'' 2026 4800 88 1 = Inr cb \<and>
           balanceGrams cb = (877528 / 10000 - 88) * (4800 * 41000) * 1 \<and>
           difference (targetOrDefault 2026) routeR002
             = (877528 / 10000 - 88) * (4800 * 41000) * 1)"
proof -
  have t: "tableTarget 2026 = 877528 / 10000" by (simp add: tableTarget_def)
  have r: "ghgIntensity routeR002 = 88" "fuelConsumption routeR002 = 4800"
    by (simp_all add: routeR002_def)
  from compliance_balance_formula [where sid = "''SHIP-A''" and y = 2026 and fuel = 4800
      and actual = 88 and multiplier = 1 and route = routeR002] isBlank_SHIP_A
  obtain cb where "map_of FUELEU_TARGETS 2026 = Some (tableTarget 2026)"
    and "createFromRoute ''SHIP-A'' 2026 4800 88 1 = Inr cb"
    and "balanceGrams cb = (tableTarget 2026 - 88) * (4800 * 41000) * 1"
    and "difference (targetOrDefault 2026) routeR002
             = (tableTarget 2026 - ghgIntensity routeR002) * (fuelConsumption routeR002 * 41000) * 1"
    by auto
  then show ?thesis using isBlank_SHIP_A unfolding t r by auto
qed

text \<open>
  Claim C9, as stated, fails: for 5000 t, 91.0 gCO2e/MJ, 2025 and multiplier 1 the balance is
  not -341,106,560,000 g, neither in the calculation nor as the value of the expression
  \<open>(89.3368 - 91.0) * 205,000,000 * 1.0\<close> the claim equates it with.
\<close>

theorem scenario_balance_differs_from_stated_value:
  "balanceGrams (projr (createFromRoute ''SHIP-A'' 2025 5000 91 1)) \<noteq> - 341106560000
   \<and> difference (targetOrDefault 2025) routeR001 \<noteq> - 341106560000
   \<and> (893368 / 10000 - 91) * 205000000 * 1 \<noteq> (- 341106560000 :: real)"
  by (simp add: createFromRoute_scenario difference_scenario scenarioCB_def)

text \<open>
  Claim C9, amended. For that input the energy in scope is 205,000,000 MJ and the balance is
  \<open>(89.3368 - 91.0) * 205,000,000 * 1.0 = -340,956,000\<close> g; the deficit is positive, the
  result is not compliant, and the penalty is the deficit in tonnes times 2400. The route
  comparison of the sources gives the same energy and difference for route R001 and
  reports it as not compliant with a deficit of 340.96 t.
\<close>

theorem scenario_deficit_and_penalty:
  "createFromRoute ''SHIP-A'' 2025 5000 91 1 = Inr scenarioCB
   \<and> cb_energyInScope scenarioCB = 205000000
   \<and> ghgTarget scenarioCB = 893368 / 10000
   \<and> balanceGrams scenarioCB = (893368 / 10000 - 91) * 205000000 * 1
   \<and> balanceGrams scenarioCB = - 340956000
   \<and> deficitAmount scenarioCB > 0
   \<and> cb_isCompliant scenarioCB = False
   \<and> penalty scenarioCB = (deficitAmount scenarioCB / 1000000) * 2400
   \<and> energyInScope routeR001 = 205000000
   \<and> difference (targetOrDefault 2025) routeR001 = - 340956000
   \<and> compliant (compareRoute (targetOrDefault 2025) routeR001 routeR001) = False
   \<and> deficit (compareRoute (targetOrDefault 2025) routeR001 routeR001) = 34096 / 100"
proof -
  have e: "energyInScope routeR001 = 205000000" by (simp add: energyInScope_def routeR001_def)
  have c: "compliant (compareRoute (targetOrDefault 2025) routeR001 routeR001) = False"
    by (simp add: compareRoute_def Let_def targetOrDefault_2025 routeR001_def)
  have rnd: "toFixed2 (340956 / 1000) = 34096 / 100"
  proof -
    have r: "roundDouble (340956 / 1000) = 5998161384959902 / 2 ^ 44"
    proof -
      have "roundDouble (340956 / 1000)
              = of_int (roundTiesToEven ((340956 / 1000) / 2 powi (8 - 52))) * 2 powi (8 - 52)"
        by (rule roundDouble_eval) simp_all
      also have "\<dots> = 5998161384959902 / 2 ^ 44" by (simp add: roundTiesToEven_def Let_def)
      finally show ?thesis .
    qed
    have rr: "round (5998161384959902 / 2 ^ 44 * 100 :: real) = 34096"
      by (simp add: round_def floor_eq_iff)
    show ?thesis unfolding toFixed2_def Let_def r rr by simp
  qed
  have d0: "deficit (compareRoute (targetOrDefault 2025) routeR001 routeR001)
              = toFixed2 (\<bar>difference (targetOrDefault 2025) routeR001\<bar> / 1000000)"
    using c by (simp add: compareRoute_def Let_def)
  have d1: "\<bar>difference (targetOrDefault 2025) routeR001\<bar> / 1000000 = 340956 / 1000"
    by (simp add: difference_scenario)
  have d: "deficit (compareRoute (targetOrDefault 2025) routeR001 routeR001) = 34096 / 100"
    unfolding d0 d1 by (rule rnd)
  show ?thesis
    using createFromRoute_scenario e c d difference_scenario by (simp add: scenarioCB_def)
qed

end
